theory Spec2Isabelle
  imports Main "HOL-Library.Sublist"
begin

section \<open>The evaluation driver of zerospeech2021 (cli/evaluate.py)\<close>

text \<open>
  The program is a command line driver: it resolves the gold dataset and the splits to
  score, stages the submission, creates the output directory and runs the four track
  evaluators, writing their score tables as csv files. Its effects are modelled by
  explicit state passing over a \<open>world\<close>: the file system, the list of handlers
  registered for process exit, and a trace of what the driver did, in order. Every raise
  of the source is a value \<open>Inl e\<close>; the world reached when the exception is raised
  is kept, since nothing is rolled back.
\<close>

subsection \<open>Paths and the file system\<close>

text \<open>
  A \<open>pathlib.Path\<close> is the list of its parts; \<open>p / c\<close> appends one part. The file
  system holds directories and regular files (with their text), keyed by absolute
  paths; every operation that takes a path reaches the file system through
  \<open>canon\<close>, the absolute form of the path (what \<open>Path.resolve\<close> returns).
\<close>

type_synonym path = "string list"

datatype node = Dir | File string

type_synonym tree = "path \<Rightarrow> node option"

text \<open>
  After a zip submission is unpacked the source rebinds \<open>submission\<close> to the value of
  \<open>tempfile.mkdtemp()\<close>, which is a \<open>str\<close>, not a \<open>Path\<close>. Both kinds of value
  reach the track functions, so the model keeps them apart.
\<close>

datatype pathish = PathObj path | StrObj string

datatype exn =
    ValueError string
  | TypeError string
  | KeyError string
  | FileNotFoundError string
  | FileExistsError string
  | NotADirectoryError string
  | IsADirectoryError string
  | OtherError string string

datatype track = Phonetic | Lexical | Syntactic | Semantic

text \<open>The document that \<open>yaml.safe_load\<close> returns; mappings keep their string keys.\<close>

datatype yaml =
    YNull
  | YBool bool
  | YInt int
  | YStr string
  | YList "yaml list"
  | YDict "(string \<times> yaml) list"

text \<open>
  The trace. \<open>Printed\<close> is a line on standard output; the other events record a call
  the driver makes, at the moment it makes it: the two \<open>resolve(strict=True)\<close>
  calls, \<open>mkdtemp\<close>, \<open>extractall\<close>, the \<open>mkdir\<close> of the output directory, the
  read of \<open>meta.yaml\<close>, a call of a track evaluator (track, split, the gold
  locations and the submission locations it is given), a table written by \<open>to_csv\<close> (path, \<open>index\<close>, \<open>float_format\<close>) and a file
  written by the phonetic evaluator itself.
\<close>

datatype event =
    Printed string
  | ResolveDataset path
  | ResolveSubmission path
  | MakeTemp path
  | Extract path string
  | MakeOutputDir path
  | ReadMeta path
  | Called track string "path list" "path list"
  | Saved path bool string
  | Produced path

record world =
  fs :: tree
  trace :: "event list"
  atexit :: "string list"

text \<open>
  What the driver takes from outside this file: the operating system (\<open>canon\<close>, the
  names \<open>mkdtemp\<close> tries), the zipfile, yaml and pandas libraries, Python's
  \<open>str()\<close> on a loaded yaml value, and the four track modules of the package.

  Modelled from the spec: the modules \<open>lexical\<close>, \<open>syntactic\<close>, \<open>semantic\<close> and
  \<open>phonetic\<close> of the package are not part of the sources at hand. Each evaluator is a
  function of the locations it is given (the part of the file system below each path)
  that either raises or returns its score tables; the phonetic evaluator does not return
  tables but writes its own output files into the output directory, here the list of
  file names and contents it writes before it returns or raises.
\<close>

record 't lib =
  canon :: "path \<Rightarrow> path"
  tmp_names :: "string list"
  is_zipfile :: "string \<Rightarrow> bool"
  zip_members :: "string \<Rightarrow> (path \<times> node) list \<times> exn option"
  yaml_safe_load :: "string \<Rightarrow> exn + yaml"
  py_str :: "yaml \<Rightarrow> string"
  render :: "'t \<Rightarrow> bool \<Rightarrow> string \<Rightarrow> string"
  lexical_evaluate :: "tree \<Rightarrow> tree \<Rightarrow> exn + ('t \<times> 't \<times> 't)"
  syntactic_evaluate :: "tree \<Rightarrow> tree \<Rightarrow> exn + ('t \<times> 't)"
  semantic_evaluate :: "tree \<Rightarrow> tree \<Rightarrow> tree \<Rightarrow> yaml \<Rightarrow> yaml \<Rightarrow> exn + 't"
  phonetic_evaluate :: "tree \<Rightarrow> tree \<Rightarrow> string \<Rightarrow> (string \<times> string) list \<times> exn option"

subsection \<open>Computations that may raise\<close>

type_synonym 'a io = "world \<Rightarrow> (exn + 'a) \<times> world"

definition io_return :: "'a \<Rightarrow> 'a io" where
  "io_return x w = (Inr x, w)"

definition io_raise :: "exn \<Rightarrow> 'a io" where
  "io_raise e w = (Inl e, w)"

definition io_bind :: "'a io \<Rightarrow> ('a \<Rightarrow> 'b io) \<Rightarrow> 'b io" where
  "io_bind m f w = (case m w of (Inl e, w') \<Rightarrow> (Inl e, w') | (Inr x, w') \<Rightarrow> f x w')"

definition io_lift :: "exn + 'a \<Rightarrow> 'a io" where
  "io_lift r w = (r, w)"

definition io_test :: "(world \<Rightarrow> 'a) \<Rightarrow> 'a io" where
  "io_test f w = (Inr (f w), w)"

definition emit :: "event \<Rightarrow> unit io" where
  "emit e w = (Inr (), w\<lparr>trace := trace w @ [e]\<rparr>)"

text \<open>\<open>for x in xs: body(x)\<close>; an exception in the body leaves the loop.\<close>

primrec for_each :: "('a \<Rightarrow> unit io) \<Rightarrow> 'a list \<Rightarrow> unit io" where
  "for_each body [] = io_return ()"
| "for_each body (x # xs) = io_bind (body x) (\<lambda>_. for_each body xs)"

subsection \<open>pathlib, os and tempfile\<close>

fun join_parts :: "string list \<Rightarrow> string" where
  "join_parts [] = []"
| "join_parts [x] = x"
| "join_parts (x # y # ys) = x @ ''/'' @ join_parts (y # ys)"

text \<open>\<open>str(path)\<close>: the parts joined by slashes; the root part is \<open>/\<close> itself.\<close>

definition path_str :: "path \<Rightarrow> string" where
  "path_str p =
     (case p of [] \<Rightarrow> ''.''
      | x # xs \<Rightarrow> if x = ''/'' then ''/'' @ join_parts xs else join_parts p)"

fun split_slash :: "string \<Rightarrow> string \<Rightarrow> string list" where
  "split_slash acc [] = [rev acc]"
| "split_slash acc (c # cs) =
     (if c = CHR ''/'' then rev acc # split_slash [] cs else split_slash (c # acc) cs)"

text \<open>\<open>pathlib.Path(s)\<close>: empty parts and \<open>.\<close> are dropped, a leading slash is the root.\<close>

definition Path :: "string \<Rightarrow> path" where
  "Path s =
     (let parts = filter (\<lambda>c. c \<noteq> [] \<and> c \<noteq> ''.'') (split_slash [] s)
      in case s of [] \<Rightarrow> parts
         | c # _ \<Rightarrow> if c = CHR ''/'' then ''/'' # parts else parts)"

text \<open>
  \<open>submission / name\<close>. On a \<open>Path\<close> it appends the part; on a \<open>str\<close> Python has no
  such operator and raises TypeError.
\<close>

definition slash :: "pathish \<Rightarrow> string \<Rightarrow> exn + path" where
  "slash s name =
     (case s of
        PathObj p \<Rightarrow> Inr (p @ [name])
      | StrObj _ \<Rightarrow> Inl (TypeError ''unsupported operand type(s) for /: 'str' and 'str''))"

definition node_at :: "'t lib \<Rightarrow> world \<Rightarrow> path \<Rightarrow> node option" where
  "node_at L w p = fs w (canon L p)"

definition is_dir :: "'t lib \<Rightarrow> world \<Rightarrow> path \<Rightarrow> bool" where
  "is_dir L w p = (node_at L w p = Some Dir)"

definition is_file :: "'t lib \<Rightarrow> world \<Rightarrow> path \<Rightarrow> bool" where
  "is_file L w p = (case node_at L w p of Some (File _) \<Rightarrow> True | _ \<Rightarrow> False)"

text \<open>The part of the file system below a path, as an evaluator sees it.\<close>

definition subtree :: "'t lib \<Rightarrow> world \<Rightarrow> path \<Rightarrow> tree" where
  "subtree L w p = (\<lambda>q. fs w (canon L p @ q))"

text \<open>\<open>p.resolve(strict=True)\<close>: the absolute path, FileNotFoundError when nothing is there.\<close>

definition resolve_strict :: "'t lib \<Rightarrow> path \<Rightarrow> path io" where
  "resolve_strict L p w =
     (case node_at L w p of
        None \<Rightarrow> (Inl (FileNotFoundError (path_str p)), w)
      | Some _ \<Rightarrow> (Inr (canon L p), w))"

text \<open>\<open>p.open('r').read()\<close>.\<close>

definition read_text :: "'t lib \<Rightarrow> path \<Rightarrow> string io" where
  "read_text L p w =
     (case node_at L w p of
        None \<Rightarrow> (Inl (FileNotFoundError (path_str p)), w)
      | Some Dir \<Rightarrow> (Inl (IsADirectoryError (path_str p)), w)
      | Some (File text) \<Rightarrow> (Inr text, w))"

text \<open>
  Opening a file for writing: the parent must be a directory and the path itself must
  not be one; the file is created or replaced.
\<close>

definition write_text :: "'t lib \<Rightarrow> path \<Rightarrow> string \<Rightarrow> unit io" where
  "write_text L p text w =
     (case fs w (butlast (canon L p)) of
        None \<Rightarrow> (Inl (FileNotFoundError (path_str p)), w)
      | Some (File _) \<Rightarrow> (Inl (NotADirectoryError (path_str p)), w)
      | Some Dir \<Rightarrow>
          (case fs w (canon L p) of
             Some Dir \<Rightarrow> (Inl (IsADirectoryError (path_str p)), w)
           | _ \<Rightarrow> (Inr (), w\<lparr>fs := (fs w)(canon L p \<mapsto> File text)\<rparr>)))"

definition is_regular :: "node option \<Rightarrow> bool" where
  "is_regular n = (case n of Some (File _) \<Rightarrow> True | _ \<Rightarrow> False)"

text \<open>The proper prefixes of a path, the root first.\<close>

primrec ancestors :: "path \<Rightarrow> path list" where
  "ancestors [] = []"
| "ancestors (x # xs) = [] # map ((#) x) (ancestors xs)"

text \<open>
  \<open>p.mkdir(exist_ok=True, parents=True)\<close>: a regular file on the way is
  NotADirectoryError, a regular file at the path itself FileExistsError; otherwise every
  missing directory down to the path is created.
\<close>

definition mkdir_parents :: "'t lib \<Rightarrow> path \<Rightarrow> unit io" where
  "mkdir_parents L p w =
     (let q = canon L p in
      if list_ex (\<lambda>a. is_regular (fs w a)) (ancestors q)
      then (Inl (NotADirectoryError (path_str p)), w)
      else case fs w q of
             Some (File _) \<Rightarrow> (Inl (FileExistsError (path_str p)), w)
           | Some Dir \<Rightarrow> (Inr (), w)
           | None \<Rightarrow>
               (Inr (), w\<lparr>fs := (\<lambda>r. if (r = q \<or> r \<in> set (ancestors q)) \<and> fs w r = None
                                      then Some Dir else fs w r)\<rparr>))"

text \<open>
  \<open>tempfile.mkdtemp()\<close>: the first candidate name that does not exist yet is created as
  a directory and returned as a \<open>str\<close>; FileExistsError when every candidate exists.
\<close>

definition mkdtemp :: "'t lib \<Rightarrow> string io" where
  "mkdtemp L w =
     (case filter (\<lambda>n. node_at L w (Path n) = None) (tmp_names L) of
        [] \<Rightarrow> (Inl (FileExistsError ''No usable temporary directory name found''), w)
      | n # _ \<Rightarrow> (Inr n, w\<lparr>fs := (fs w)(canon L (Path n) \<mapsto> Dir)\<rparr>))"

definition atexit_register :: "string \<Rightarrow> unit io" where
  "atexit_register d w = (Inr (), w\<lparr>atexit := atexit w @ [d]\<rparr>)"

text \<open>
  \<open>zipfile.ZipFile(archive, 'r').extractall(target)\<close>: the members the library gets
  out of the archive are written below the target; when it fails on the way, what was
  written before stays.
\<close>

definition extractall :: "'t lib \<Rightarrow> string \<Rightarrow> string \<Rightarrow> unit io" where
  "extractall L archive target w =
     (let (members, failure) = zip_members L archive;
          w' = w\<lparr>fs := fold (\<lambda>(m, n) t. t(canon L (Path target @ m) \<mapsto> n)) members (fs w)\<rparr>
      in case failure of None \<Rightarrow> (Inr (), w') | Some e \<Rightarrow> (Inl e, w'))"

text \<open>\<open>table.to_csv(p, index=..., float_format=...)\<close>, the header left at its default.\<close>

definition to_csv :: "'t lib \<Rightarrow> 't \<Rightarrow> path \<Rightarrow> bool \<Rightarrow> string \<Rightarrow> unit io" where
  "to_csv L table p index float_format =
     io_bind (write_text L p (render L table index float_format))
       (\<lambda>_. emit (Saved p index float_format))"

text \<open>\<open>value[key]\<close> with a string key, on what yaml can load.\<close>

definition subscript :: "yaml \<Rightarrow> string \<Rightarrow> exn + yaml" where
  "subscript v key =
     (case v of
        YDict items \<Rightarrow> (case map_of items key of None \<Rightarrow> Inl (KeyError key) | Some x \<Rightarrow> Inr x)
      | YList _ \<Rightarrow> Inl (TypeError ''list indices must be integers or slices, not str'')
      | YStr _ \<Rightarrow> Inl (TypeError ''string indices must be integers'')
      | _ \<Rightarrow> Inl (TypeError ''object is not subscriptable''))"

fun subscripts :: "yaml \<Rightarrow> string list \<Rightarrow> exn + yaml" where
  "subscripts v [] = Inr v"
| "subscripts v (key # keys) =
     (case subscript v key of Inl e \<Rightarrow> Inl e | Inr x \<Rightarrow> subscripts x keys)"

subsection \<open>Calls of the track evaluators\<close>

definition call_lexical :: "'t lib \<Rightarrow> string \<Rightarrow> path \<Rightarrow> path \<Rightarrow> ('t \<times> 't \<times> 't) io" where
  "call_lexical L kind gold_file submission_file =
     io_bind (emit (Called Lexical kind [gold_file] [submission_file]))
       (\<lambda>_ w. (lexical_evaluate L (subtree L w gold_file) (subtree L w submission_file), w))"

definition call_syntactic :: "'t lib \<Rightarrow> string \<Rightarrow> path \<Rightarrow> path \<Rightarrow> ('t \<times> 't) io" where
  "call_syntactic L kind gold_file submission_file =
     io_bind (emit (Called Syntactic kind [gold_file] [submission_file]))
       (\<lambda>_ w. (syntactic_evaluate L (subtree L w gold_file) (subtree L w submission_file), w))"

definition call_semantic ::
  "'t lib \<Rightarrow> string \<Rightarrow> path \<Rightarrow> path \<Rightarrow> path \<Rightarrow> yaml \<Rightarrow> yaml \<Rightarrow> 't io" where
  "call_semantic L kind gold_file pairs_file embeddings metric pooling =
     io_bind (emit (Called Semantic kind [gold_file, pairs_file] [embeddings]))
       (\<lambda>_ w. (semantic_evaluate L (subtree L w gold_file) (subtree L w pairs_file)
                  (subtree L w embeddings) metric pooling, w))"

text \<open>The phonetic evaluator writes its files into the output directory itself.\<close>

definition produce :: "'t lib \<Rightarrow> path \<Rightarrow> string \<times> string \<Rightarrow> unit io" where
  "produce L output file =
     io_bind (write_text L (output @ [fst file]) (snd file))
       (\<lambda>_. emit (Produced (output @ [fst file])))"

definition call_phonetic :: "'t lib \<Rightarrow> string \<Rightarrow> path \<Rightarrow> path \<Rightarrow> path \<Rightarrow> unit io" where
  "call_phonetic L kind features_location abx_data output =
     io_bind (emit (Called Phonetic kind [abx_data] [features_location]))
       (\<lambda>_. io_bind (io_test (\<lambda>w. phonetic_evaluate L (subtree L w features_location)
                                    (subtree L w abx_data) kind))
          (\<lambda>(files, failure).
             io_bind (for_each (produce L output) files)
               (\<lambda>_. case failure of None \<Rightarrow> io_return () | Some e \<Rightarrow> io_raise e)))"

subsection \<open>The four track functions\<close>

definition eval_lexical :: "'t lib \<Rightarrow> path \<Rightarrow> pathish \<Rightarrow> path \<Rightarrow> string list \<Rightarrow> unit io" where
  "eval_lexical L dataset submission output kinds =
     for_each (\<lambda>kind.
       io_bind (emit (Printed (''Evaluating lexical '' @ kind @ ''...''))) (\<lambda>_.
       let gold_file = dataset @ [''lexical'', kind, ''gold.csv''] in
       io_bind (io_lift (slash submission ''lexical'')) (\<lambda>d.
       let submission_file = d @ [kind @ ''.txt''] in
       io_bind (call_lexical L kind gold_file submission_file)
         (\<lambda>(by_pair, by_frequency, by_length).
       io_bind (to_csv L by_pair
                  (output @ [''score_lexical_'' @ kind @ ''_by_pair.csv'']) False ''%.4f'') (\<lambda>_.
       io_bind (to_csv L by_frequency
                  (output @ [''score_lexical_'' @ kind @ ''_by_frequency.csv'']) False ''%.4f'') (\<lambda>_.
       to_csv L by_length
         (output @ [''score_lexical_'' @ kind @ ''_by_length.csv'']) False ''%.4f'')))))) kinds"

text \<open>Lines 40 to 42: the metric and the pooling, from \<open>meta.yaml\<close> of the submission.\<close>

definition load_parameters :: "'t lib \<Rightarrow> pathish \<Rightarrow> (yaml \<times> yaml) io" where
  "load_parameters L submission =
     io_bind (io_lift (slash submission ''meta.yaml'')) (\<lambda>meta_file.
     io_bind (emit (ReadMeta meta_file)) (\<lambda>_.
     io_bind (read_text L meta_file) (\<lambda>text.
     io_bind (io_lift (yaml_safe_load L text)) (\<lambda>meta.
     io_bind (io_lift (subscripts meta [''parameters'', ''semantic'', ''metric''])) (\<lambda>metric.
     io_bind (io_lift (subscripts meta [''parameters'', ''semantic'', ''pooling''])) (\<lambda>pooling.
     io_return (metric, pooling)))))))"

definition eval_semantic :: "'t lib \<Rightarrow> path \<Rightarrow> pathish \<Rightarrow> path \<Rightarrow> string list \<Rightarrow> unit io" where
  "eval_semantic L dataset submission output kinds =
     io_bind (load_parameters L submission) (\<lambda>(metric, pooling).
     for_each (\<lambda>kind.
       io_bind (emit (Printed (''Evaluating semantic '' @ kind @ '' (metric='' @ py_str L metric
                                 @ '', pooling='' @ py_str L pooling @ '')...''))) (\<lambda>_.
       let gold_file = dataset @ [''semantic'', kind, ''gold.csv''];
           pairs_file = dataset @ [''semantic'', kind, ''pairs.csv''] in
       io_bind (io_lift (slash submission ''semantic'')) (\<lambda>d.
       io_bind (call_semantic L kind gold_file pairs_file (d @ [kind]) metric pooling) (\<lambda>score.
       to_csv L score (output @ [''score_semantic_'' @ kind @ ''.csv'']) False ''%.4f'')))) kinds)"

definition eval_syntactic :: "'t lib \<Rightarrow> path \<Rightarrow> pathish \<Rightarrow> path \<Rightarrow> string list \<Rightarrow> unit io" where
  "eval_syntactic L dataset submission output kinds =
     for_each (\<lambda>kind.
       io_bind (emit (Printed (''Evaluating syntactic '' @ kind @ ''...''))) (\<lambda>_.
       let gold_file = dataset @ [''syntactic'', kind, ''gold.csv''] in
       io_bind (io_lift (slash submission ''syntactic'')) (\<lambda>d.
       let submission_file = d @ [kind @ ''.txt''] in
       io_bind (call_syntactic L kind gold_file submission_file) (\<lambda>(by_pair, by_type).
       io_bind (to_csv L by_pair
                  (output @ [''score_syntactic_'' @ kind @ ''_by_pair.csv'']) False ''%.4f'') (\<lambda>_.
       to_csv L by_type
         (output @ [''score_syntactic_'' @ kind @ ''_by_type.csv'']) False ''%.4f''))))) kinds"

definition eval_phonetic :: "'t lib \<Rightarrow> path \<Rightarrow> pathish \<Rightarrow> path \<Rightarrow> string list \<Rightarrow> unit io" where
  "eval_phonetic L dataset submission output kinds =
     (let abx_data = dataset @ [''phonetic'', ''abx_features''] in
      for_each (\<lambda>kind.
        io_bind (emit (Printed (''Evaluating phonetic '' @ kind @ ''...''))) (\<lambda>_.
        io_bind (io_lift (slash submission ''phonetic'')) (\<lambda>d.
        let features_location = d @ [kind] in
        call_phonetic L kind features_location abx_data output))) kinds)"

subsection \<open>The command\<close>

text \<open>
  Lines 113 to 116: the splits to evaluate and the gold root. \<open>environ\<close> is
  \<open>os.environ\<close>.
\<close>

definition select_gold :: "(string \<rightharpoonup> string) \<Rightarrow> path \<Rightarrow> string list \<times> path" where
  "select_gold environ dataset =
     (let kinds = [''dev''] in
      case environ ''ZEROSPEECH2021_TEST_GOLD'' of
        None \<Rightarrow> (kinds, dataset)
      | Some gold \<Rightarrow> (kinds @ [''test''], Path gold))"

text \<open>Lines 119 to 121: the dataset must exist and be a directory.\<close>

definition check_dataset :: "'t lib \<Rightarrow> path \<Rightarrow> path io" where
  "check_dataset L dataset =
     io_bind (emit (ResolveDataset dataset)) (\<lambda>_.
     io_bind (resolve_strict L dataset) (\<lambda>dataset.
     io_bind (io_test (\<lambda>w. is_dir L w dataset)) (\<lambda>found.
     if \<not> found then io_raise (ValueError (''dataset not found: '' @ path_str dataset))
     else io_return dataset)))"

text \<open>
  Lines 124 to 136: the submission must exist; a zip file is unpacked into a fresh
  temporary directory, removed at exit, and \<open>submission\<close> becomes the name of that
  directory, the \<open>str\<close> returned by \<open>mkdtemp\<close>.
\<close>

definition stage_submission :: "'t lib \<Rightarrow> path \<Rightarrow> pathish io" where
  "stage_submission L submission =
     io_bind (emit (ResolveSubmission submission)) (\<lambda>_.
     io_bind (resolve_strict L submission) (\<lambda>submission.
     io_bind (io_test (\<lambda>w. node_at L w submission)) (\<lambda>found.
     if (case found of Some (File content) \<Rightarrow> is_zipfile L content | _ \<Rightarrow> False) then
       io_bind (mkdtemp L) (\<lambda>submission_unzip.
       io_bind (emit (MakeTemp (Path submission_unzip))) (\<lambda>_.
       io_bind (atexit_register submission_unzip) (\<lambda>_.
       io_bind (emit (Printed (''Unzip submission ot '' @ submission_unzip @ ''...''))) (\<lambda>_.
       io_bind (emit (Extract submission submission_unzip)) (\<lambda>_.
       io_bind (extractall L (case found of Some (File content) \<Rightarrow> content | _ \<Rightarrow> [])
                  submission_unzip) (\<lambda>_.
       io_return (StrObj submission_unzip)))))))
     else if found \<noteq> Some Dir then
       io_raise (ValueError (''submssion is not a zip file or a directory: ''
                              @ path_str submission))
     else io_return (PathObj submission))))"

text \<open>Lines 138 and 139.\<close>

definition make_output :: "'t lib \<Rightarrow> path \<Rightarrow> unit io" where
  "make_output L output_directory =
     io_bind (io_test (\<lambda>w. is_dir L w output_directory)) (\<lambda>present.
     if \<not> present then
       io_bind (emit (MakeOutputDir output_directory)) (\<lambda>_. mkdir_parents L output_directory)
     else io_return ())"

text \<open>Lines 141 to 151: the tracks, in the order of the source.\<close>

definition run_tracks ::
  "'t lib \<Rightarrow> path \<Rightarrow> pathish \<Rightarrow> path \<Rightarrow> string list \<Rightarrow> bool \<Rightarrow> bool \<Rightarrow> bool \<Rightarrow> bool \<Rightarrow> unit io" where
  "run_tracks L dataset submission output_directory kinds
       no_phonetic no_lexical no_syntactic no_semantic =
     io_bind (if \<not> no_lexical then eval_lexical L dataset submission output_directory kinds
              else io_return ()) (\<lambda>_.
     io_bind (if \<not> no_semantic then eval_semantic L dataset submission output_directory kinds
              else io_return ()) (\<lambda>_.
     io_bind (if \<not> no_syntactic then eval_syntactic L dataset submission output_directory kinds
              else io_return ()) (\<lambda>_.
     if \<not> no_phonetic then eval_phonetic L dataset submission output_directory kinds
     else io_return ())))"

text \<open>The body of the \<open>try\<close> statement, lines 113 to 151.\<close>

definition pipeline ::
  "'t lib \<Rightarrow> (string \<rightharpoonup> string) \<Rightarrow> path \<Rightarrow> path \<Rightarrow> path \<Rightarrow> bool \<Rightarrow> bool \<Rightarrow> bool \<Rightarrow> bool \<Rightarrow> unit io"
  where
  "pipeline L environ dataset submission output_directory
       no_phonetic no_lexical no_syntactic no_semantic =
     (let (kinds, dataset) = select_gold environ dataset in
      io_bind (check_dataset L dataset) (\<lambda>dataset.
      io_bind (stage_submission L submission) (\<lambda>submission.
      io_bind (make_output L output_directory) (\<lambda>_.
      run_tracks L dataset submission output_directory kinds
        no_phonetic no_lexical no_syntactic no_semantic))))"

text \<open>
  How the command ends: it returns (exit status 0), it calls \<open>sys.exit\<close> with a code,
  or an exception that the \<open>except ValueError\<close> clause does not catch leaves it.
\<close>

datatype outcome = Returned | SysExit int | Uncaught exn

definition evaluate ::
  "'t lib \<Rightarrow> (string \<rightharpoonup> string) \<Rightarrow> path \<Rightarrow> path \<Rightarrow> path \<Rightarrow> bool \<Rightarrow> bool \<Rightarrow> bool \<Rightarrow> bool
     \<Rightarrow> world \<Rightarrow> outcome \<times> world" where
  "evaluate L environ dataset submission output_directory
       no_phonetic no_lexical no_syntactic no_semantic w =
     (case pipeline L environ dataset submission output_directory
             no_phonetic no_lexical no_syntactic no_semantic w of
        (Inr _, w') \<Rightarrow> (Returned, w')
      | (Inl (ValueError error), w') \<Rightarrow>
          (SysExit (- 1), snd (emit (Printed (''ERROR: '' @ error)) w'))
      | (Inl e, w') \<Rightarrow> (Uncaught e, w'))"

subsection \<open>Reading the trace\<close>

text \<open>What a computation started in \<open>w\<close> and ended in \<open>w'\<close> has added to the trace.\<close>

definition new_events :: "world \<Rightarrow> world \<Rightarrow> event list" where
  "new_events w w' = drop (length (trace w)) (trace w')"

text \<open>
  \<open>adds P m\<close>: whatever the start, \<open>m\<close> only extends the trace, by events that
  satisfy \<open>P\<close>. \<open>logs Q m\<close> is the general form, where \<open>Q\<close> relates the start, the
  result, the end and the added events.
\<close>

definition adds :: "(event \<Rightarrow> bool) \<Rightarrow> 'a io \<Rightarrow> bool" where
  "adds P m = (\<forall>w. \<exists>es. trace (snd (m w)) = trace w @ es \<and> list_all P es)"

definition logs :: "(world \<Rightarrow> exn + 'a \<Rightarrow> world \<Rightarrow> event list \<Rightarrow> bool) \<Rightarrow> 'a io \<Rightarrow> bool" where
  "logs Q m = (\<forall>w. \<exists>es. trace (snd (m w)) = trace w @ es \<and> Q w (fst (m w)) (snd (m w)) es)"

definition tname :: "track \<Rightarrow> string" where
  "tname t = (case t of Phonetic \<Rightarrow> ''phonetic'' | Lexical \<Rightarrow> ''lexical''
              | Syntactic \<Rightarrow> ''syntactic'' | Semantic \<Rightarrow> ''semantic'')"

text \<open>The names of the score files that the driver itself writes for a track and a split.\<close>

definition score_names :: "track \<Rightarrow> string \<Rightarrow> string list" where
  "score_names t kind =
     (case t of
        Lexical \<Rightarrow> [''score_lexical_'' @ kind @ ''_by_pair.csv'',
                     ''score_lexical_'' @ kind @ ''_by_frequency.csv'',
                     ''score_lexical_'' @ kind @ ''_by_length.csv'']
      | Semantic \<Rightarrow> [''score_semantic_'' @ kind @ ''.csv'']
      | Syntactic \<Rightarrow> [''score_syntactic_'' @ kind @ ''_by_pair.csv'',
                       ''score_syntactic_'' @ kind @ ''_by_type.csv'']
      | Phonetic \<Rightarrow> [])"

text \<open>
  The events a track function may add, for a gold root, a submission root, an output
  directory and a list of splits: its progress line, the read of the metadata (semantic
  track), calls of its evaluator on locations below its own sub-trees, its score files
  written without index and with four decimals, and (phonetic track) the files the
  evaluator writes into the output directory.
\<close>

definition track_event :: "path \<Rightarrow> path \<Rightarrow> path \<Rightarrow> string list \<Rightarrow> track \<Rightarrow> event \<Rightarrow> bool" where
  "track_event dataset submission output kinds t e =
     (case e of
        Printed s \<Rightarrow> list_ex (\<lambda>k. prefix (''Evaluating '' @ tname t @ '' '' @ k) s) kinds
      | ReadMeta p \<Rightarrow> t = Semantic \<and> p = submission @ [''meta.yaml'']
      | Called t' k golds subs \<Rightarrow>
          t' = t \<and> k \<in> set kinds \<and> list_all (prefix (dataset @ [tname t])) golds
          \<and> list_all (prefix (submission @ [tname t])) subs
      | Saved p index float_format \<Rightarrow>
          \<not> index \<and> float_format = ''%.4f''
          \<and> list_ex (\<lambda>k. p \<in> set (map (\<lambda>n. output @ [n]) (score_names t k))) kinds
      | Produced p \<Rightarrow> t = Phonetic \<and> p \<noteq> [] \<and> butlast p = output
      | _ \<Rightarrow> False)"

text \<open>The events of the steps before the tracks.\<close>

definition staging_event :: "'t lib \<Rightarrow> path \<Rightarrow> path \<Rightarrow> path \<Rightarrow> event \<Rightarrow> bool" where
  "staging_event L dataset submission output e =
     (case e of
        ResolveDataset p \<Rightarrow> p = dataset
      | ResolveSubmission p \<Rightarrow> p = submission
      | MakeTemp p \<Rightarrow> True
      | Printed s \<Rightarrow> prefix ''Unzip submission ot '' s
      | Extract archive target \<Rightarrow> archive = canon L submission
      | MakeOutputDir p \<Rightarrow> p = output
      | _ \<Rightarrow> False)"

definition enabled_tracks :: "bool \<Rightarrow> bool \<Rightarrow> bool \<Rightarrow> bool \<Rightarrow> track list" where
  "enabled_tracks no_phonetic no_lexical no_syntactic no_semantic =
     (if no_lexical then [] else [Lexical]) @ (if no_semantic then [] else [Semantic])
     @ (if no_syntactic then [] else [Syntactic]) @ (if no_phonetic then [] else [Phonetic])"

text \<open>Every event that a run of the body of the command may add.\<close>

definition run_event ::
  "'t lib \<Rightarrow> (string \<rightharpoonup> string) \<Rightarrow> path \<Rightarrow> path \<Rightarrow> path \<Rightarrow> bool \<Rightarrow> bool \<Rightarrow> bool \<Rightarrow> bool
     \<Rightarrow> event \<Rightarrow> bool" where
  "run_event L environ dataset submission output
       no_phonetic no_lexical no_syntactic no_semantic e =
     (staging_event L (snd (select_gold environ dataset)) submission output e
      \<or> list_ex (\<lambda>t. track_event (canon L (snd (select_gold environ dataset)))
                       (canon L submission) output (fst (select_gold environ dataset)) t e)
           (enabled_tracks no_phonetic no_lexical no_syntactic no_semantic))"

subsection \<open>What the claims speak about\<close>

text \<open>
  An event respects a list of splits and a gold root: the dataset that is resolved is
  that root, and an evaluator is called for one of the splits, on gold locations below
  the resolved root.
\<close>

definition uses_gold :: "'t lib \<Rightarrow> string list \<Rightarrow> path \<Rightarrow> event \<Rightarrow> bool" where
  "uses_gold L kinds root e =
     (case e of
        ResolveDataset p \<Rightarrow> p = root
      | Called t k golds subs \<Rightarrow> k \<in> set kinds \<and> list_all (prefix (canon L root)) golds
      | _ \<Rightarrow> True)"



text \<open>
  An event of a track: its progress line, the read of the metadata (semantic), a call of
  its evaluator, a score file with its name prefix, a file of the phonetic evaluator.
\<close>

definition of_track :: "track \<Rightarrow> event \<Rightarrow> bool" where
  "of_track t e =
     (case e of
        Printed s \<Rightarrow> prefix (''Evaluating '' @ tname t) s
      | ReadMeta p \<Rightarrow> t = Semantic
      | Called t' k golds subs \<Rightarrow> t' = t
      | Saved p index float_format \<Rightarrow> p \<noteq> [] \<and> prefix (''score_'' @ tname t) (last p)
      | Produced p \<Rightarrow> t = Phonetic
      | _ \<Rightarrow> False)"

text \<open>An event that is handed a location inside the gold or submission sub-tree of a track.\<close>

definition touches :: "path \<Rightarrow> path \<Rightarrow> track \<Rightarrow> event \<Rightarrow> bool" where
  "touches dataset submission t e =
     (case e of
        Called t' k golds subs \<Rightarrow>
          list_ex (prefix (dataset @ [tname t])) golds
          \<or> list_ex (prefix (submission @ [tname t])) subs
      | ReadMeta p \<Rightarrow> prefix (submission @ [tname t]) p
      | _ \<Rightarrow> False)"

text \<open>
  The step an event belongs to: 0 the resolution of the gold root, 1 the staging of the
  submission, 2 the output directory, 3 to 6 the lexical, semantic, syntactic and
  phonetic tracks, 7 the error report.
\<close>

definition track_phase :: "track \<Rightarrow> nat" where
  "track_phase t = (case t of Lexical \<Rightarrow> 3 | Semantic \<Rightarrow> 4 | Syntactic \<Rightarrow> 5 | Phonetic \<Rightarrow> 6)"

definition printed_phase :: "string \<Rightarrow> nat" where
  "printed_phase s =
     (if prefix ''Unzip'' s then 1
      else if prefix ''Evaluating lexical'' s then 3
      else if prefix ''Evaluating semantic'' s then 4
      else if prefix ''Evaluating syntactic'' s then 5
      else if prefix ''Evaluating phonetic'' s then 6
      else 7)"

definition saved_phase :: "path \<Rightarrow> nat" where
  "saved_phase p =
     (case rev p of
        [] \<Rightarrow> 7
      | n # _ \<Rightarrow> if prefix ''score_lexical'' n then 3
                 else if prefix ''score_semantic'' n then 4
                 else if prefix ''score_syntactic'' n then 5
                 else 7)"

definition phase :: "event \<Rightarrow> nat" where
  "phase e =
     (case e of
        ResolveDataset _ \<Rightarrow> 0
      | ResolveSubmission _ \<Rightarrow> 1
      | MakeTemp _ \<Rightarrow> 1
      | Extract _ _ \<Rightarrow> 1
      | MakeOutputDir _ \<Rightarrow> 2
      | ReadMeta _ \<Rightarrow> 4
      | Called t _ _ _ \<Rightarrow> track_phase t
      | Saved p _ _ \<Rightarrow> saved_phase p
      | Produced _ \<Rightarrow> 6
      | Printed s \<Rightarrow> printed_phase s)"

text \<open>
  The metadata is read at most once, and no semantic scoring (a call of the semantic
  evaluator, a semantic score file) happens unless it has been read before.
\<close>

definition semantic_scoring :: "event \<Rightarrow> bool" where
  "semantic_scoring e =
     (case e of
        Called t _ _ _ \<Rightarrow> t = Semantic
      | Saved p _ _ \<Rightarrow> p \<noteq> [] \<and> prefix ''score_semantic'' (last p)
      | _ \<Rightarrow> False)"

definition meta_read :: "event \<Rightarrow> bool" where
  "meta_read e = (case e of ReadMeta _ \<Rightarrow> True | _ \<Rightarrow> False)"

fun scoring_follows_meta :: "event list \<Rightarrow> bool" where
  "scoring_follows_meta [] = True"
| "scoring_follows_meta (e # es) =
     (if meta_read e then list_all (\<lambda>x. \<not> meta_read x) es
      else \<not> semantic_scoring e \<and> scoring_follows_meta es)"

text \<open>The error lines printed and the files written, in the order of the trace.\<close>

definition error_lines :: "event list \<Rightarrow> string list" where
  "error_lines es =
     filter (prefix ''ERROR: '') (concat (map (\<lambda>e. case e of Printed s \<Rightarrow> [s] | _ \<Rightarrow> []) es))"

definition written :: "event list \<Rightarrow> path list" where
  "written es =
     concat (map (\<lambda>e. case e of Saved p _ _ \<Rightarrow> [p] | Produced p \<Rightarrow> [p] | _ \<Rightarrow> []) es)"

definition output_created :: "event \<Rightarrow> bool" where
  "output_created e = (case e of MakeOutputDir _ \<Rightarrow> True | _ \<Rightarrow> False)"

text \<open>
  The checks of lines 119 to 136 pass: the dataset resolves and is a directory; the
  submission resolves and is a directory or a zip file.
\<close>

definition dataset_valid :: "'t lib \<Rightarrow> world \<Rightarrow> path \<Rightarrow> bool" where
  "dataset_valid L w dataset = (node_at L w dataset \<noteq> None \<and> is_dir L w (canon L dataset))"

definition submission_valid :: "'t lib \<Rightarrow> world \<Rightarrow> path \<Rightarrow> bool" where
  "submission_valid L w submission =
     (node_at L w submission \<noteq> None \<and>
      (case node_at L w (canon L submission) of
         None \<Rightarrow> False
       | Some Dir \<Rightarrow> True
       | Some (File content) \<Rightarrow> is_zipfile L content))"

text \<open>The first two steps of the body, lines 113 to 136.\<close>

definition staging ::
  "'t lib \<Rightarrow> (string \<rightharpoonup> string) \<Rightarrow> path \<Rightarrow> path \<Rightarrow> pathish io" where
  "staging L environ dataset submission =
     io_bind (check_dataset L (snd (select_gold environ dataset)))
       (\<lambda>_. stage_submission L submission)"

text \<open>
  \<open>keeps L m\<close>: \<open>m\<close> removes no regular file, and every file it reports as written
  is a regular file when it ends.
\<close>

definition keeps :: "'t lib \<Rightarrow> 'a io \<Rightarrow> bool" where
  "keeps L m =
     logs (\<lambda>w r w' es. (\<forall>p. is_regular (fs w p) \<longrightarrow> is_regular (fs w' p))
                        \<and> list_all (\<lambda>p. is_regular (fs w' (canon L p))) (written es)) m"

text \<open>
  A list of events runs through the steps \<open>lo\<close> to \<open>hi\<close> in order: the steps never
  decrease along the list.
\<close>

definition in_phases :: "nat \<Rightarrow> nat \<Rightarrow> event list \<Rightarrow> bool" where
  "in_phases lo hi es =
     (sorted (map phase es) \<and> list_all (\<lambda>e. lo \<le> phase e \<and> phase e \<le> hi) es)"

text \<open>
  The events of the Reference Resolver and of the Archive Stager, and the order
  \<open>runs_before P Q\<close>: no \<open>Q\<close> event occurs before the first \<open>P\<close> event.
\<close>

definition resolver_step :: "event \<Rightarrow> bool" where
  "resolver_step e = (case e of ResolveDataset _ \<Rightarrow> True | _ \<Rightarrow> False)"

definition stager_step :: "event \<Rightarrow> bool" where
  "stager_step e =
     (case e of ResolveSubmission _ \<Rightarrow> True | MakeTemp _ \<Rightarrow> True | Extract _ _ \<Rightarrow> True
      | _ \<Rightarrow> False)"

fun runs_before :: "(event \<Rightarrow> bool) \<Rightarrow> (event \<Rightarrow> bool) \<Rightarrow> event list \<Rightarrow> bool" where
  "runs_before P Q [] = True"
| "runs_before P Q (e # es) = (if P e then True else \<not> Q e \<and> runs_before P Q es)"

subsection \<open>A small installation, for concrete runs\<close>

text \<open>
  Tables are their own csv text. A file is a zip archive when it starts with \<open>PK\<close>;
  the archive holds \<open>meta.yaml\<close> and a lexical prediction file. The yaml text
  \<open>full\<close> loads to a document with both semantic parameters, \<open>nopool\<close> to one
  without \<open>pooling\<close>. The lexical, syntactic and semantic evaluators need their input
  files to exist; the semantic evaluator rejects a metric other than \<open>cosine\<close> with a
  ValueError.
\<close>

definition demo_meta :: "string \<Rightarrow> exn + yaml" where
  "demo_meta text =
     (if text = ''full'' then
        Inr (YDict [(''parameters'',
               YDict [(''semantic'', YDict [(''metric'', YStr ''cosine''),
                                              (''pooling'', YStr ''mean'')])])])
      else if text = ''nopool'' then
        Inr (YDict [(''parameters'', YDict [(''semantic'', YDict [(''metric'', YStr ''cosine'')])])])
      else if text = ''odd'' then
        Inr (YDict [(''parameters'',
               YDict [(''semantic'', YDict [(''metric'', YStr ''manhattan''),
                                              (''pooling'', YStr ''mean'')])])])
      else Inl (OtherError ''YAMLError'' text))"

definition demo_lib :: "string lib" where
  "demo_lib =
     \<lparr> canon = (\<lambda>p. p),
       tmp_names = [''/tmp/zr2021''],
       is_zipfile = (\<lambda>content. take 2 content = ''PK''),
       zip_members = (\<lambda>content.
          ([([''meta.yaml''], File ''full''), ([''lexical''], Dir),
            ([''lexical'', ''dev.txt''], File ''predictions'')], None)),
       yaml_safe_load = demo_meta,
       py_str = (\<lambda>v. case v of YStr s \<Rightarrow> s | _ \<Rightarrow> ''None''),
       render = (\<lambda>table index float_format. table),
       lexical_evaluate = (\<lambda>gold predictions.
          case (gold [], predictions []) of
            (Some (File _), Some (File _)) \<Rightarrow> Inr (''pair'', ''frequency'', ''length'')
          | _ \<Rightarrow> Inl (FileNotFoundError ''lexical'')),
       syntactic_evaluate = (\<lambda>gold predictions.
          case (gold [], predictions []) of
            (Some (File _), Some (File _)) \<Rightarrow> Inr (''pair'', ''type'')
          | _ \<Rightarrow> Inl (FileNotFoundError ''syntactic'')),
       semantic_evaluate = (\<lambda>gold pairs embeddings metric pooling.
          if metric \<noteq> YStr ''cosine'' then Inl (ValueError ''unknown metric'')
          else case (gold [], pairs []) of
            (Some (File _), Some (File _)) \<Rightarrow> Inr ''similarity''
          | _ \<Rightarrow> Inl (FileNotFoundError ''semantic'')),
       phonetic_evaluate = (\<lambda>features abx kind.
          ([(''score_phonetic_'' @ kind @ ''.csv'', ''abx'')], None)) \<rparr>"

definition demo_files :: "(path \<times> node) list" where
  "demo_files =
     [([''/''], Dir),
      ([''/'', ''data''], Dir),
      ([''/'', ''data'', ''lexical''], Dir),
      ([''/'', ''data'', ''lexical'', ''dev''], Dir),
      ([''/'', ''data'', ''lexical'', ''dev'', ''gold.csv''], File ''gold''),
      ([''/'', ''data'', ''semantic''], Dir),
      ([''/'', ''data'', ''semantic'', ''dev''], Dir),
      ([''/'', ''data'', ''semantic'', ''dev'', ''gold.csv''], File ''gold''),
      ([''/'', ''data'', ''semantic'', ''dev'', ''pairs.csv''], File ''pairs''),
      ([''/'', ''gold''], Dir),
      ([''/'', ''gold'', ''lexical''], Dir),
      ([''/'', ''gold'', ''lexical'', ''dev''], Dir),
      ([''/'', ''gold'', ''lexical'', ''dev'', ''gold.csv''], File ''gold''),
      ([''/'', ''gold'', ''lexical'', ''test''], Dir),
      ([''/'', ''gold'', ''lexical'', ''test'', ''gold.csv''], File ''gold''),
      ([''/'', ''sub''], Dir),
      ([''/'', ''sub'', ''meta.yaml''], File ''full''),
      ([''/'', ''sub'', ''lexical''], Dir),
      ([''/'', ''sub'', ''lexical'', ''dev.txt''], File ''predictions''),
      ([''/'', ''sub'', ''lexical'', ''test.txt''], File ''predictions''),
      ([''/'', ''sub'', ''semantic''], Dir),
      ([''/'', ''sub'', ''semantic'', ''dev''], Dir),
      ([''/'', ''nopool''], Dir),
      ([''/'', ''nopool'', ''meta.yaml''], File ''nopool''),
      ([''/'', ''nopool'', ''lexical''], Dir),
      ([''/'', ''nopool'', ''lexical'', ''dev.txt''], File ''predictions''),
      ([''/'', ''odd''], Dir),
      ([''/'', ''odd'', ''meta.yaml''], File ''odd''),
      ([''/'', ''odd'', ''lexical''], Dir),
      ([''/'', ''odd'', ''lexical'', ''dev.txt''], File ''predictions''),
      ([''/'', ''sub.zip''], File ''PK archive''),
      ([''/'', ''notes.txt''], File ''plain text'')]"

definition demo_world :: world where
  "demo_world = \<lparr> fs = map_of demo_files, trace = [], atexit = [] \<rparr>"

definition demo_environ :: "string \<rightharpoonup> string" where
  "demo_environ = [''ZEROSPEECH2021_TEST_GOLD'' \<mapsto> ''/gold'']"

section \<open>Properties\<close>

lemmas io_defs =
  io_return_def io_raise_def io_bind_def io_lift_def io_test_def emit_def

lemmas os_defs =
  node_at_def is_dir_def is_file_def subtree_def resolve_strict_def read_text_def
  write_text_def mkdir_parents_def mkdtemp_def atexit_register_def extractall_def
  to_csv_def slash_def path_str_def Path_def subscript_def is_regular_def

lemmas driver_defs =
  call_lexical_def call_syntactic_def call_semantic_def call_phonetic_def produce_def
  eval_lexical_def load_parameters_def eval_semantic_def eval_syntactic_def
  eval_phonetic_def select_gold_def check_dataset_def stage_submission_def
  make_output_def run_tracks_def pipeline_def evaluate_def

lemmas demo_defs = demo_lib_def demo_world_def demo_environ_def demo_files_def demo_meta_def

subsection \<open>Rules for the trace\<close>

lemma addsI: "(\<And>w. \<exists>es. trace (snd (m w)) = trace w @ es \<and> list_all P es) \<Longrightarrow> adds P m"
  by (simp add: adds_def)

lemma addsD: "adds P m \<Longrightarrow> \<exists>es. trace (snd (m w)) = trace w @ es \<and> list_all P es"
  by (simp add: adds_def)

lemma adds_new_events: "adds P m \<Longrightarrow> list_all P (new_events w (snd (m w)))"
  using addsD [of P m w] by (auto simp: new_events_def)

lemma adds_silent: "(\<And>w. trace (snd (m w)) = trace w) \<Longrightarrow> adds P m"
  by (simp add: adds_def)

lemma adds_return: "adds P (io_return x)"
  by (rule adds_silent) (simp add: io_return_def)

lemma adds_raise: "adds P (io_raise e)"
  by (rule adds_silent) (simp add: io_raise_def)

lemma adds_lift: "adds P (io_lift r)"
  by (rule adds_silent) (simp add: io_lift_def)

lemma adds_test: "adds P (io_test f)"
  by (rule adds_silent) (simp add: io_test_def)

lemma adds_emit: "P e \<Longrightarrow> adds P (emit e)"
  by (simp add: adds_def emit_def)

lemma adds_bind_value:
  assumes m: "adds P m"
    and ret: "\<And>w x w'. m w = (Inr x, w') \<Longrightarrow> R x"
    and f: "\<And>x. R x \<Longrightarrow> adds P (f x)"
  shows "adds P (io_bind m f)"
proof (rule addsI)
  fix w
  obtain es where es: "trace (snd (m w)) = trace w @ es" "list_all P es"
    using addsD [OF m] by blast
  show "\<exists>es. trace (snd (io_bind m f w)) = trace w @ es \<and> list_all P es"
  proof (cases "m w")
    case (Pair r w1)
    show ?thesis
    proof (cases r)
      case (Inl e)
      with Pair es show ?thesis by (auto simp: io_bind_def)
    next
      case (Inr x)
      with Pair have "R x" using ret by blast
      then obtain es' where es': "trace (snd (f x w1)) = trace w1 @ es'" "list_all P es'"
        using addsD [OF f] by blast
      with Pair Inr es show ?thesis by (auto simp: io_bind_def)
    qed
  qed
qed

lemma adds_bind: "adds P m \<Longrightarrow> (\<And>x. adds P (f x)) \<Longrightarrow> adds P (io_bind m f)"
  by (rule adds_bind_value [where R = "\<lambda>_. True"]) auto

lemma adds_for_each: "(\<And>x. x \<in> set xs \<Longrightarrow> adds P (body x)) \<Longrightarrow> adds P (for_each body xs)"
  by (induction xs) (auto intro: adds_return adds_bind)

lemma adds_if: "(c \<Longrightarrow> adds P a) \<Longrightarrow> (\<not> c \<Longrightarrow> adds P b) \<Longrightarrow> adds P (if c then a else b)"
  by simp

lemma adds_prod: "(\<And>a b. adds P (f a b)) \<Longrightarrow> adds P (case x of (a, b) \<Rightarrow> f a b)"
  by (cases x) simp

lemma adds_mono: "adds P m \<Longrightarrow> (\<And>e. P e \<Longrightarrow> Q e) \<Longrightarrow> adds Q m"
  unfolding adds_def list_all_iff by blast

lemma trace_write_text: "trace (snd (write_text L p text w)) = trace w"
  by (simp add: write_text_def split: option.splits node.splits)

lemma trace_resolve_strict: "trace (snd (resolve_strict L p w)) = trace w"
  by (simp add: resolve_strict_def split: option.splits)

lemma trace_read_text: "trace (snd (read_text L p w)) = trace w"
  by (simp add: read_text_def split: option.splits node.splits)

lemma trace_mkdir_parents: "trace (snd (mkdir_parents L p w)) = trace w"
  by (simp add: mkdir_parents_def Let_def split: option.splits node.splits)

lemma trace_mkdtemp: "trace (snd (mkdtemp L w)) = trace w"
  by (simp add: mkdtemp_def split: list.splits)

lemma trace_atexit_register: "trace (snd (atexit_register d w)) = trace w"
  by (simp add: atexit_register_def)

lemma trace_extractall: "trace (snd (extractall L a t w)) = trace w"
  by (simp add: extractall_def Let_def split: prod.splits option.splits)

lemmas adds_os =
  adds_silent [OF trace_write_text] adds_silent [OF trace_resolve_strict]
  adds_silent [OF trace_read_text] adds_silent [OF trace_mkdir_parents]
  adds_silent [OF trace_mkdtemp] adds_silent [OF trace_atexit_register]
  adds_silent [OF trace_extractall]

lemmas adds_intros =
  adds_return adds_raise adds_lift adds_test adds_bind adds_if adds_prod adds_os

lemma adds_to_csv: "P (Saved p i f) \<Longrightarrow> adds P (to_csv L t p i f)"
  unfolding to_csv_def by (intro adds_intros adds_emit)

lemma slash_PathObj: "slash s name = Inr d \<Longrightarrow> s = PathObj (butlast d) \<and> d = butlast d @ [name]"
  by (auto simp: slash_def split: pathish.splits)

lemma io_lift_value: "io_lift r w = (Inr x, w') \<Longrightarrow> r = Inr x"
  by (simp add: io_lift_def)

subsection \<open>The events of each track\<close>

lemma adds_slash:
  assumes "\<And>p. submission = PathObj p \<Longrightarrow> adds P (f (p @ [name]))"
  shows "adds P (io_bind (io_lift (slash submission name)) f)"
proof (cases submission)
  case (PathObj p)
  then have "io_bind (io_lift (slash submission name)) f = f (p @ [name])"
    by (auto simp: io_bind_def io_lift_def slash_def)
  with assms PathObj show ?thesis by simp
next
  case (StrObj s)
  then show ?thesis
    by (intro adds_silent) (simp add: io_bind_def io_lift_def slash_def)
qed

lemma ex_prefix_kind: "k \<in> set kinds \<Longrightarrow> \<exists>x\<in>set kinds. prefix x (k @ rest)"
  by (rule bexI [where x = k]) simp_all

lemmas track_event_simps = track_event_def tname_def score_names_def list_ex_iff

lemmas adds_track_intros =
  adds_for_each adds_slash adds_intros adds_emit adds_to_csv adds_silent

lemma adds_eval_lexical:
  "adds (track_event dataset root out kinds Lexical)
     (eval_lexical L dataset (PathObj root) out kinds)"
  "adds (track_event dataset root out kinds Lexical)
     (eval_lexical L dataset (StrObj s) out kinds)"
  unfolding eval_lexical_def Let_def call_lexical_def
  by (intro adds_track_intros; auto simp: track_event_simps intro!: ex_prefix_kind)+

lemma adds_eval_syntactic:
  "adds (track_event dataset root out kinds Syntactic)
     (eval_syntactic L dataset (PathObj root) out kinds)"
  "adds (track_event dataset root out kinds Syntactic)
     (eval_syntactic L dataset (StrObj s) out kinds)"
  unfolding eval_syntactic_def Let_def call_syntactic_def
  by (intro adds_track_intros; auto simp: track_event_simps intro!: ex_prefix_kind)+

lemma adds_eval_semantic:
  "adds (track_event dataset root out kinds Semantic)
     (eval_semantic L dataset (PathObj root) out kinds)"
  "adds (track_event dataset root out kinds Semantic)
     (eval_semantic L dataset (StrObj s) out kinds)"
  unfolding eval_semantic_def load_parameters_def Let_def call_semantic_def
  by (intro adds_track_intros; auto simp: track_event_simps intro!: ex_prefix_kind)+

lemma adds_produce:
  "adds (track_event dataset root out kinds Phonetic) (produce L out file)"
  unfolding produce_def
  by (intro adds_track_intros; auto simp: track_event_simps)

lemma adds_option: "adds P a \<Longrightarrow> (\<And>x. adds P (b x)) \<Longrightarrow> adds P (case v of None \<Rightarrow> a | Some x \<Rightarrow> b x)"
  by (cases v) auto

lemma adds_eval_phonetic:
  "adds (track_event dataset root out kinds Phonetic)
     (eval_phonetic L dataset (PathObj root) out kinds)"
  "adds (track_event dataset root out kinds Phonetic)
     (eval_phonetic L dataset (StrObj s) out kinds)"
  unfolding eval_phonetic_def Let_def call_phonetic_def
  by (intro adds_track_intros adds_produce adds_option;
      auto simp: track_event_simps intro!: ex_prefix_kind)+


subsection \<open>The events of a run\<close>

lemma adds_run_tracks:
  assumes "submission = PathObj root \<or> (\<exists>s. submission = StrObj s)"
  shows "adds (\<lambda>e. list_ex (\<lambda>t. track_event dataset root out kinds t e)
                  (enabled_tracks no_phonetic no_lexical no_syntactic no_semantic))
           (run_tracks L dataset submission out kinds
              no_phonetic no_lexical no_syntactic no_semantic)"
  unfolding run_tracks_def
  apply (intro adds_intros)
        apply (rule adds_mono [where P = "track_event dataset root out kinds Lexical"])
  using assms apply (auto simp: adds_eval_lexical enabled_tracks_def)[2]
      apply (rule adds_mono [where P = "track_event dataset root out kinds Semantic"])
  using assms apply (auto simp: adds_eval_semantic enabled_tracks_def)[2]
    apply (rule adds_mono [where P = "track_event dataset root out kinds Syntactic"])
  using assms apply (auto simp: adds_eval_syntactic enabled_tracks_def)[2]
  apply (rule adds_mono [where P = "track_event dataset root out kinds Phonetic"])
  using assms apply (auto simp: adds_eval_phonetic enabled_tracks_def)
  done

lemma resolve_strict_value: "resolve_strict L p w = (Inr x, w') \<Longrightarrow> x = canon L p \<and> w' = w"
  by (auto simp: resolve_strict_def split: option.splits)

lemma check_dataset_value:
  "check_dataset L dataset w = (Inr x, w') \<Longrightarrow> x = canon L dataset"
  by (auto simp: check_dataset_def io_defs resolve_strict_def split: option.splits if_splits)

lemma adds_check_dataset: "adds (staging_event L dataset submission out) (check_dataset L dataset)"
  unfolding check_dataset_def
  by (intro adds_intros adds_emit) (simp add: staging_event_def)

lemma stage_submission_value:
  "stage_submission L submission w = (Inr x, w') \<Longrightarrow>
     x = PathObj (canon L submission) \<or> (\<exists>s. x = StrObj s)"
  by (auto simp: stage_submission_def io_defs resolve_strict_def
           split: option.splits if_splits prod.splits sum.splits)

lemma adds_stage_submission:
  "adds (staging_event L dataset submission out) (stage_submission L submission)"
  unfolding stage_submission_def
  apply (rule adds_bind)
   apply (rule adds_emit, simp add: staging_event_def)
  apply (rule adds_bind_value [where R = "\<lambda>x. x = canon L submission"])
    apply (rule adds_os)
   apply (drule resolve_strict_value, simp)
  apply (intro adds_intros adds_emit)
    apply (simp_all add: staging_event_def)
  done

lemma adds_make_output: "adds (staging_event L dataset submission out) (make_output L out)"
  unfolding make_output_def
  by (intro adds_intros adds_emit) (simp add: staging_event_def)

lemma adds_pipeline:
  "adds (run_event L environ dataset submission out
           no_phonetic no_lexical no_syntactic no_semantic)
     (pipeline L environ dataset submission out
        no_phonetic no_lexical no_syntactic no_semantic)"
  unfolding pipeline_def split_def Let_def
  apply (rule adds_bind_value [where R = "\<lambda>x. x = canon L (snd (select_gold environ dataset))"])
    apply (rule adds_mono [OF adds_check_dataset [where submission = submission and out = out]])
    apply (simp add: run_event_def)
   apply (erule check_dataset_value)
  apply (rule adds_bind_value
           [where R = "\<lambda>x. x = PathObj (canon L submission) \<or> (\<exists>s. x = StrObj s)"])
    apply (rule adds_mono [OF adds_stage_submission
             [where dataset = "snd (select_gold environ dataset)" and out = out]])
    apply (simp add: run_event_def)
   apply (erule stage_submission_value)
  apply (rule adds_bind)
   apply (rule adds_mono [OF adds_make_output
            [where dataset = "snd (select_gold environ dataset)" and submission = submission]])
   apply (simp add: run_event_def)
  apply (rule adds_mono [OF adds_run_tracks [where root = "canon L submission"]])
   apply assumption
  apply (simp add: run_event_def)
  done

lemma evaluate_trace:
  "trace (snd (evaluate L environ dataset submission out np nl ny ns w))
   = trace (snd (pipeline L environ dataset submission out np nl ny ns w))
     @ (case fst (pipeline L environ dataset submission out np nl ny ns w) of
          Inl (ValueError msg) \<Rightarrow> [Printed (''ERROR: '' @ msg)] | _ \<Rightarrow> [])"
  by (simp add: evaluate_def emit_def split: prod.splits sum.splits exn.splits)

lemma evaluate_new_events:
  assumes "\<And>e. run_event L environ dataset submission out np nl ny ns e \<Longrightarrow> P e"
    and "\<And>msg. P (Printed (''ERROR: '' @ msg))"
  shows "list_all P (new_events w (snd (evaluate L environ dataset submission out np nl ny ns w)))"
proof -
  obtain es where es:
    "trace (snd (pipeline L environ dataset submission out np nl ny ns w)) = trace w @ es"
    "list_all (run_event L environ dataset submission out np nl ny ns) es"
    using addsD [OF adds_pipeline] by blast
  have "list_all P es"
    using es(2) assms(1) by (auto simp: list_all_iff)
  then show ?thesis
    using assms(2) by (auto simp: new_events_def evaluate_trace es(1) split: sum.splits exn.splits)
qed

subsection \<open>The splits and the gold root\<close>

lemma select_gold_unset:
  "environ ''ZEROSPEECH2021_TEST_GOLD'' = None \<Longrightarrow> select_gold environ dataset = ([''dev''], dataset)"
  by (simp add: select_gold_def)

lemma select_gold_set:
  "environ ''ZEROSPEECH2021_TEST_GOLD'' = Some gold \<Longrightarrow>
     select_gold environ dataset = ([''dev'', ''test''], Path gold)"
  by (simp add: select_gold_def)

lemma run_event_uses_gold:
  "run_event L environ dataset submission out np nl ny ns e \<Longrightarrow>
     uses_gold L (fst (select_gold environ dataset)) (snd (select_gold environ dataset)) e"
  by (auto simp: run_event_def uses_gold_def staging_event_def track_event_def list_ex_iff
                 list_all_iff
           split: event.splits intro: append_prefixD)

text \<open>
  C1. When \<open>ZEROSPEECH2021_TEST_GOLD\<close> is unset the splits are exactly \<open>dev\<close>
  and the gold root is the positional dataset; when it is set to \<open>gold\<close> the splits are
  exactly \<open>dev\<close>, \<open>test\<close> and the gold root is \<open>Path gold\<close>, not the positional
  argument. In the run that follows, the dataset that is resolved is that root, every
  evaluator is called for one of these splits, and every gold location handed to an
  evaluator lies below the resolved root.
\<close>

theorem splits_and_gold_root:
  "(environ ''ZEROSPEECH2021_TEST_GOLD'' = None \<longrightarrow>
      select_gold environ dataset = ([''dev''], dataset)
      \<and> list_all (uses_gold L [''dev''] dataset)
            (new_events w (snd (evaluate L environ dataset submission out np nl ny ns w))))
   \<and> (environ ''ZEROSPEECH2021_TEST_GOLD'' = Some gold \<longrightarrow>
      select_gold environ dataset = ([''dev'', ''test''], Path gold)
      \<and> list_all (uses_gold L [''dev'', ''test''] (Path gold))
            (new_events w (snd (evaluate L environ dataset submission out np nl ny ns w))))"
proof -
  have "list_all (uses_gold L (fst (select_gold environ dataset)) (snd (select_gold environ dataset)))
          (new_events w (snd (evaluate L environ dataset submission out np nl ny ns w)))"
    by (rule evaluate_new_events) (auto dest: run_event_uses_gold simp: uses_gold_def)
  then show ?thesis
    by (auto simp: select_gold_unset select_gold_set)
qed

theorem splits_and_gold_root_witness:
  "(Map.empty ''ZEROSPEECH2021_TEST_GOLD'' = (None :: string option)
    \<and> select_gold Map.empty [''/'', ''data''] = ([''dev''], [''/'', ''data''])
    \<and> list_all (uses_gold demo_lib [''dev''] [''/'', ''data''])
          (new_events demo_world
             (snd (evaluate demo_lib Map.empty [''/'', ''data''] [''/'', ''sub''] [''/'', ''out'']
                     True False True True demo_world))))
   \<and> (demo_environ ''ZEROSPEECH2021_TEST_GOLD'' = Some ''/gold''
    \<and> select_gold demo_environ [''/'', ''data''] = ([''dev'', ''test''], [''/'', ''gold''])
    \<and> list_all (uses_gold demo_lib [''dev'', ''test''] [''/'', ''gold''])
          (new_events demo_world
             (snd (evaluate demo_lib demo_environ [''/'', ''data''] [''/'', ''sub''] [''/'', ''out'']
                     True False True True demo_world)))
    \<and> map (\<lambda>e. case e of Called t k golds subs \<Rightarrow> (k, golds) | _ \<Rightarrow> ([], []))
          (filter (\<lambda>e. case e of Called t k golds subs \<Rightarrow> True | _ \<Rightarrow> False)
             (trace (snd (evaluate demo_lib demo_environ [''/'', ''data''] [''/'', ''sub'']
                            [''/'', ''out''] True False True True demo_world))))
        = [(''dev'', [[''/'', ''gold'', ''lexical'', ''dev'', ''gold.csv'']]),
           (''test'', [[''/'', ''gold'', ''lexical'', ''test'', ''gold.csv'']])])"
proof -
  have unset: "Map.empty ''ZEROSPEECH2021_TEST_GOLD'' = (None :: string option)"
    by simp
  have set: "demo_environ ''ZEROSPEECH2021_TEST_GOLD'' = Some ''/gold''"
    by (simp add: demo_environ_def)
  have root: "Path ''/gold'' = [''/'', ''gold'']"
    by code_simp
  have calls:
    "map (\<lambda>e. case e of Called t k golds subs \<Rightarrow> (k, golds) | _ \<Rightarrow> ([], []))
       (filter (\<lambda>e. case e of Called t k golds subs \<Rightarrow> True | _ \<Rightarrow> False)
          (trace (snd (evaluate demo_lib demo_environ [''/'', ''data''] [''/'', ''sub'']
                         [''/'', ''out''] True False True True demo_world))))
     = [(''dev'', [[''/'', ''gold'', ''lexical'', ''dev'', ''gold.csv'']]),
        (''test'', [[''/'', ''gold'', ''lexical'', ''test'', ''gold.csv'']])]"
    by code_simp
  show ?thesis
    using unset set calls
      splits_and_gold_root [where environ = Map.empty and dataset = "[''/'', ''data'']"
        and L = demo_lib and w = demo_world and submission = "[''/'', ''sub'']"
        and out = "[''/'', ''out'']" and np = True and nl = False and ny = True and ns = True]
      splits_and_gold_root [where environ = demo_environ and gold = "''/gold''"
        and dataset = "[''/'', ''data'']"
        and L = demo_lib and w = demo_world and submission = "[''/'', ''sub'']"
        and out = "[''/'', ''out'']" and np = True and nl = False and ny = True and ns = True]
    by (simp add: root)
qed

subsection \<open>The score files\<close>





subsection \<open>Skipped tracks\<close>

lemma track_event_not_of_other:
  "track_event ds sub out kinds t e \<Longrightarrow> t \<noteq> T \<Longrightarrow> \<not> of_track T e"
  by (cases t; cases T)
     (auto simp: track_event_def of_track_def tname_def score_names_def list_ex_iff prefix_def
           split: event.splits)

lemma track_event_not_touches:
  "track_event ds sub out kinds t e \<Longrightarrow> t \<noteq> T \<Longrightarrow> \<not> touches ds sub T e"
  by (cases t; cases T)
     (auto simp: track_event_def touches_def tname_def list_ex_iff list_all_iff prefix_def
           split: event.splits)

subsection \<open>The override of the gold root\<close>

text \<open>
  C9. When \<open>ZEROSPEECH2021_TEST_GOLD\<close> is set, the positional dataset argument has no
  effect on the run: two runs that differ only in that argument end the same way, in
  the same world (same trace, same file system, same exit handlers). The argument is
  replaced before \<open>resolve\<close> or any other check looks at it, so this holds as well when
  the positional path does not exist.
\<close>

theorem override_ignores_dataset_argument:
  assumes "environ ''ZEROSPEECH2021_TEST_GOLD'' = Some gold"
  shows "evaluate L environ dataset submission output_directory
           no_phonetic no_lexical no_syntactic no_semantic w
         = evaluate L environ dataset' submission output_directory
             no_phonetic no_lexical no_syntactic no_semantic w"
  using assms by (simp add: evaluate_def pipeline_def select_gold_def)

theorem override_ignores_dataset_argument_witness:
  "demo_environ ''ZEROSPEECH2021_TEST_GOLD'' = Some ''/gold''
   \<and> evaluate demo_lib demo_environ [''/'', ''nowhere''] [''/'', ''sub''] [''/'', ''out'']
         True False True True demo_world
       = evaluate demo_lib demo_environ [''/'', ''data''] [''/'', ''sub''] [''/'', ''out'']
           True False True True demo_world
   \<and> map_of demo_files [''/'', ''nowhere''] = None
   \<and> fst (evaluate demo_lib demo_environ [''/'', ''nowhere''] [''/'', ''sub''] [''/'', ''out'']
            True False True True demo_world) = Returned"
proof -
  have set: "demo_environ ''ZEROSPEECH2021_TEST_GOLD'' = Some ''/gold''"
    by (simp add: demo_environ_def)
  have missing: "map_of demo_files [''/'', ''nowhere''] = None"
    by (simp add: demo_files_def)
  have ok: "fst (evaluate demo_lib demo_environ [''/'', ''nowhere''] [''/'', ''sub'']
                   [''/'', ''out''] True False True True demo_world) = Returned"
    by code_simp
  show ?thesis
    using set missing ok
      override_ignores_dataset_argument [where environ = demo_environ and gold = "''/gold''"
        and L = demo_lib and dataset = "[''/'', ''nowhere'']" and dataset' = "[''/'', ''data'']"
        and submission = "[''/'', ''sub'']" and output_directory = "[''/'', ''out'']"
        and no_phonetic = True and no_lexical = False and no_syntactic = True
        and no_semantic = True and w = demo_world]
    by simp
qed

subsection \<open>The steps before the tracks\<close>

lemma node_at_trace [simp]: "node_at L (w\<lparr>trace := t\<rparr>) p = node_at L w p"
  by (simp add: node_at_def)

lemma is_dir_trace [simp]: "is_dir L (w\<lparr>trace := t\<rparr>) p = is_dir L w p"
  by (simp add: is_dir_def)

lemma dataset_valid_trace [simp]: "dataset_valid L (w\<lparr>trace := t\<rparr>) d = dataset_valid L w d"
  by (simp add: dataset_valid_def)

lemma submission_valid_trace [simp]:
  "submission_valid L (w\<lparr>trace := t\<rparr>) s = submission_valid L w s"
  by (simp add: submission_valid_def)

lemma check_dataset_eq:
  "check_dataset L d w =
     (if node_at L w d = None then Inl (FileNotFoundError (path_str d))
      else if \<not> is_dir L w (canon L d)
      then Inl (ValueError (''dataset not found: '' @ path_str (canon L d)))
      else Inr (canon L d),
      w\<lparr>trace := trace w @ [ResolveDataset d]\<rparr>)"
  by (auto simp: check_dataset_def io_defs resolve_strict_def split: option.splits)

lemma check_dataset_valid:
  "dataset_valid L w d \<Longrightarrow>
     check_dataset L d w = (Inr (canon L d), w\<lparr>trace := trace w @ [ResolveDataset d]\<rparr>)"
  by (simp add: check_dataset_eq dataset_valid_def)

lemma check_dataset_invalid:
  "\<not> dataset_valid L w d \<Longrightarrow>
     \<exists>e. check_dataset L d w = (Inl e, w\<lparr>trace := trace w @ [ResolveDataset d]\<rparr>)"
  by (auto simp: check_dataset_eq dataset_valid_def)

lemma stage_submission_missing:
  "node_at L w s = None \<Longrightarrow>
     stage_submission L s w
     = (Inl (FileNotFoundError (path_str s)), w\<lparr>trace := trace w @ [ResolveSubmission s]\<rparr>)"
  by (simp add: stage_submission_def io_defs resolve_strict_def)

lemma stage_submission_rejected:
  "node_at L w s \<noteq> None \<Longrightarrow> \<not> submission_valid L w s \<Longrightarrow>
     stage_submission L s w
     = (Inl (ValueError (''submssion is not a zip file or a directory: '' @ path_str (canon L s))),
        w\<lparr>trace := trace w @ [ResolveSubmission s]\<rparr>)"
  by (auto simp: stage_submission_def io_defs resolve_strict_def submission_valid_def
           split: option.splits node.splits)

lemma stage_submission_directory:
  "node_at L w s \<noteq> None \<Longrightarrow> node_at L w (canon L s) = Some Dir \<Longrightarrow>
     stage_submission L s w
     = (Inr (PathObj (canon L s)), w\<lparr>trace := trace w @ [ResolveSubmission s]\<rparr>)"
  by (auto simp: stage_submission_def io_defs resolve_strict_def split: option.splits)

lemma stage_submission_invalid:
  "\<not> submission_valid L w s \<Longrightarrow>
     \<exists>e. stage_submission L s w = (Inl e, w\<lparr>trace := trace w @ [ResolveSubmission s]\<rparr>)"
  by (cases "node_at L w s = None")
     (simp_all add: stage_submission_missing stage_submission_rejected)

lemma make_output_eq:
  "make_output L out w =
     (if is_dir L w out then (Inr (), w)
      else mkdir_parents L out (w\<lparr>trace := trace w @ [MakeOutputDir out]\<rparr>))"
  by (simp add: make_output_def io_defs)

lemma pipeline_staging:
  "pipeline L environ dataset submission out np nl ny ns =
     io_bind (staging L environ dataset submission) (\<lambda>staged.
     io_bind (make_output L out) (\<lambda>_.
     run_tracks L (canon L (snd (select_gold environ dataset))) staged out
       (fst (select_gold environ dataset)) np nl ny ns))"
proof (rule ext)
  fix w
  obtain r w1 where c: "check_dataset L (snd (select_gold environ dataset)) w = (r, w1)"
    by fastforce
  show "pipeline L environ dataset submission out np nl ny ns w =
     io_bind (staging L environ dataset submission) (\<lambda>staged.
     io_bind (make_output L out) (\<lambda>_.
     run_tracks L (canon L (snd (select_gold environ dataset))) staged out
       (fst (select_gold environ dataset)) np nl ny ns)) w"
  proof (cases r)
    case (Inl e)
    with c show ?thesis
      by (simp add: pipeline_def staging_def io_bind_def case_prod_beta Let_def)
  next
    case (Inr d)
    with c have "d = canon L (snd (select_gold environ dataset))"
      by (auto dest: check_dataset_value)
    with c Inr show ?thesis
      by (simp add: pipeline_def staging_def io_bind_def case_prod_beta Let_def
               split: prod.splits sum.splits)
  qed
qed


lemma adds_check_dataset_gen: "P (ResolveDataset d) \<Longrightarrow> adds P (check_dataset L d)"
  unfolding check_dataset_def by (intro adds_intros adds_emit)

lemma adds_stage_submission_gen:
  assumes "P (ResolveSubmission s)" "\<And>t. P (MakeTemp t)" "\<And>x. P (Printed (''Unzip submission ot '' @ x))"
    "\<And>a t. P (Extract a t)"
  shows "adds P (stage_submission L s)"
  unfolding stage_submission_def
  by (intro adds_intros adds_emit assms)

lemma adds_make_output_gen: "P (MakeOutputDir out) \<Longrightarrow> adds P (make_output L out)"
  unfolding make_output_def by (intro adds_intros adds_emit)

lemma adds_staging_gen:
  assumes "P (ResolveDataset (snd (select_gold environ dataset)))"
    "P (ResolveSubmission s)" "\<And>t. P (MakeTemp t)" "\<And>x. P (Printed (''Unzip submission ot '' @ x))"
    "\<And>a t. P (Extract a t)"
  shows "adds P (staging L environ dataset s)"
  unfolding staging_def
  by (intro adds_intros adds_check_dataset_gen adds_stage_submission_gen assms)

lemma staging_invalid:
  assumes "\<not> (dataset_valid L w (snd (select_gold environ dataset)) \<and> submission_valid L w submission)"
  shows "\<exists>e w1. staging L environ dataset submission w = (Inl e, w1) \<and> fs w1 = fs w"
proof (cases "dataset_valid L w (snd (select_gold environ dataset))")
  case False
  then show ?thesis
    using check_dataset_invalid [of L w "snd (select_gold environ dataset)"]
    by (auto simp: staging_def io_bind_def)
next
  case True
  with assms have "\<not> submission_valid L w submission" by simp
  then have "\<not> submission_valid L
       (w\<lparr>trace := trace w @ [ResolveDataset (snd (select_gold environ dataset))]\<rparr>) submission"
    by simp
  from stage_submission_invalid [OF this] True show ?thesis
    by (auto simp: staging_def io_bind_def check_dataset_valid)
qed

lemma pipeline_staging_fails:
  "staging L environ dataset submission w = (Inl e, w1) \<Longrightarrow>
     pipeline L environ dataset submission out np nl ny ns w = (Inl e, w1)"
  by (simp add: pipeline_staging io_bind_def)

lemma evaluate_after_failure:
  assumes "pipeline L environ dataset submission out np nl ny ns w = (Inl e, w1)"
  shows "fst (evaluate L environ dataset submission out np nl ny ns w) \<noteq> Returned"
    and "fs (snd (evaluate L environ dataset submission out np nl ny ns w)) = fs w1"
    and "atexit (snd (evaluate L environ dataset submission out np nl ny ns w)) = atexit w1"
  using assms by (auto simp: evaluate_def emit_def split: exn.splits)

subsection \<open>The output directory\<close>

text \<open>
  C10. The output directory is created only after the dataset and the submission have
  been checked and staged: when the first two steps fail (resolution, the directory
  check, the zip or directory check, or the extraction), the run does not end normally
  and never reaches the \<open>mkdir\<close> of the output directory. When the dataset or the
  submission does not pass its check, the run leaves the whole file system as it was, so
  an output directory that did not exist is not created.
\<close>

theorem output_directory_after_validation:
  "(\<forall>e. fst (staging L environ dataset submission w) = Inl e \<longrightarrow>
        fst (evaluate L environ dataset submission out np nl ny ns w) \<noteq> Returned
        \<and> list_all (\<lambda>e. \<not> output_created e)
             (new_events w (snd (evaluate L environ dataset submission out np nl ny ns w))))
   \<and> (\<not> (dataset_valid L w (snd (select_gold environ dataset))
          \<and> submission_valid L w submission) \<longrightarrow>
        (\<exists>e. fst (staging L environ dataset submission w) = Inl e)
        \<and> fs (snd (evaluate L environ dataset submission out np nl ny ns w)) = fs w)"
proof (intro conjI allI impI)
  fix e assume f: "fst (staging L environ dataset submission w) = Inl e"
  obtain w1 where s: "staging L environ dataset submission w = (Inl e, w1)"
    using f by (cases "staging L environ dataset submission w") auto
  note p = pipeline_staging_fails [OF s, of out np nl ny ns]
  show "fst (evaluate L environ dataset submission out np nl ny ns w) \<noteq> Returned"
    by (rule evaluate_after_failure [OF p])
  obtain es where es: "trace w1 = trace w @ es" "list_all (\<lambda>e. \<not> output_created e) es"
    using addsD [OF adds_staging_gen [where P = "\<lambda>e. \<not> output_created e"], of environ dataset
        submission L w] s
    by (auto simp: output_created_def)
  show "list_all (\<lambda>e. \<not> output_created e)
          (new_events w (snd (evaluate L environ dataset submission out np nl ny ns w)))"
    using es by (auto simp: new_events_def evaluate_trace p output_created_def split: exn.splits)
next
  assume inv: "\<not> (dataset_valid L w (snd (select_gold environ dataset))
          \<and> submission_valid L w submission)"
  from staging_invalid [OF inv] obtain e w1 where
    s: "staging L environ dataset submission w = (Inl e, w1)" and fs: "fs w1 = fs w"
    by blast
  show "\<exists>e. fst (staging L environ dataset submission w) = Inl e"
    using s by simp
  show "fs (snd (evaluate L environ dataset submission out np nl ny ns w)) = fs w"
    using evaluate_after_failure(2) [OF pipeline_staging_fails [OF s]] fs by simp
qed

theorem output_directory_after_validation_witness:
  "fst (staging demo_lib Map.empty [''/'', ''data''] [''/'', ''notes.txt''] demo_world)
     = Inl (ValueError ''submssion is not a zip file or a directory: /notes.txt'')
   \<and> \<not> (dataset_valid demo_lib demo_world (snd (select_gold Map.empty [''/'', ''data'']))
          \<and> submission_valid demo_lib demo_world [''/'', ''notes.txt''])
   \<and> fs demo_world [''/'', ''out''] = None
   \<and> fst (evaluate demo_lib Map.empty [''/'', ''data''] [''/'', ''notes.txt''] [''/'', ''out'']
            False False False False demo_world) \<noteq> Returned
   \<and> list_all (\<lambda>e. \<not> output_created e)
         (new_events demo_world
            (snd (evaluate demo_lib Map.empty [''/'', ''data''] [''/'', ''notes.txt'']
                    [''/'', ''out''] False False False False demo_world)))
   \<and> fs (snd (evaluate demo_lib Map.empty [''/'', ''data''] [''/'', ''notes.txt'']
                 [''/'', ''out''] False False False False demo_world)) = fs demo_world"
proof -
  have fails: "fst (staging demo_lib Map.empty [''/'', ''data''] [''/'', ''notes.txt''] demo_world)
     = Inl (ValueError ''submssion is not a zip file or a directory: /notes.txt'')"
    by code_simp
  have invalid: "\<not> (dataset_valid demo_lib demo_world (snd (select_gold Map.empty [''/'', ''data'']))
          \<and> submission_valid demo_lib demo_world [''/'', ''notes.txt''])"
    by code_simp
  have absent: "fs demo_world [''/'', ''out''] = None"
    by code_simp
  show ?thesis
    using fails invalid absent
      output_directory_after_validation [where L = demo_lib and environ = Map.empty
        and dataset = "[''/'', ''data'']" and submission = "[''/'', ''notes.txt'']"
        and out = "[''/'', ''out'']" and np = False and nl = False and ny = False
        and ns = False and w = demo_world]
    by blast
qed

subsection \<open>Invalid submissions\<close>




subsection \<open>Rules for \<open>logs\<close>\<close>

lemma logsI:
  "(\<And>w. \<exists>es. trace (snd (m w)) = trace w @ es \<and> Q w (fst (m w)) (snd (m w)) es) \<Longrightarrow> logs Q m"
  by (simp add: logs_def)

lemma logsD:
  "logs Q m \<Longrightarrow> \<exists>es. trace (snd (m w)) = trace w @ es \<and> Q w (fst (m w)) (snd (m w)) es"
  by (simp add: logs_def)

lemma logs_new_events:
  "logs Q m \<Longrightarrow> Q w (fst (m w)) (snd (m w)) (new_events w (snd (m w)))"
  using logsD [of Q m w] by (auto simp: new_events_def)

lemma logs_bind:
  assumes m: "logs QA m"
    and f: "\<And>x. logs QB (f x)"
    and fail: "\<And>w e w1 a. QA w (Inl e) w1 a \<Longrightarrow> Q w (Inl e) w1 a"
    and pass: "\<And>w x w1 a r w2 b. QA w (Inr x) w1 a \<Longrightarrow> QB w1 r w2 b \<Longrightarrow> Q w r w2 (a @ b)"
  shows "logs Q (io_bind m f)"
proof (rule logsI)
  fix w
  obtain a where a: "trace (snd (m w)) = trace w @ a" "QA w (fst (m w)) (snd (m w)) a"
    using logsD [OF m] by blast
  show "\<exists>es. trace (snd (io_bind m f w)) = trace w @ es
              \<and> Q w (fst (io_bind m f w)) (snd (io_bind m f w)) es"
  proof (cases "m w")
    case (Pair r w1)
    show ?thesis
    proof (cases r)
      case (Inl e)
      with Pair a fail [of w e w1 a] show ?thesis
        by (auto simp: io_bind_def)
    next
      case (Inr x)
      obtain b where b: "trace (snd (f x w1)) = trace w1 @ b"
          "QB w1 (fst (f x w1)) (snd (f x w1)) b"
        using logsD [OF f] by blast
      with Pair Inr a pass [of w x w1 a "fst (f x w1)" "snd (f x w1)" b] show ?thesis
        by (auto simp: io_bind_def)
    qed
  qed
qed

lemma adds_logs:
  assumes "adds P m" and "\<And>es. list_all P es \<Longrightarrow> Q es"
  shows "logs (\<lambda>w r w' es. Q es) m"
  using assms unfolding adds_def logs_def by blast

lemma logs_mono:
  "logs Q m \<Longrightarrow> (\<And>w r w' es. Q w r w' es \<Longrightarrow> Q' w r w' es) \<Longrightarrow> logs Q' m"
  unfolding logs_def by blast

subsection \<open>Files that were written stay\<close>

lemma written_append [simp]: "written (a @ b) = written a @ written b"
  by (simp add: written_def)

lemma written_Nil [simp]: "written [] = []"
  by (simp add: written_def)

lemma keeps_bind:
  assumes "keeps L m" and "\<And>x. keeps L (f x)"
  shows "keeps L (io_bind m f)"
  unfolding keeps_def
  by (rule logs_bind [OF assms(1) [unfolded keeps_def] assms(2) [unfolded keeps_def]])
     (auto simp: list_all_iff)

lemma keeps_silent: "(\<And>w. snd (m w) = w) \<Longrightarrow> keeps L m"
  by (simp add: keeps_def logs_def)

lemma keeps_return: "keeps L (io_return x)"
  by (rule keeps_silent) (simp add: io_return_def)

lemma keeps_raise: "keeps L (io_raise e)"
  by (rule keeps_silent) (simp add: io_raise_def)

lemma keeps_lift: "keeps L (io_lift r)"
  by (rule keeps_silent) (simp add: io_lift_def)

lemma keeps_test: "keeps L (io_test f)"
  by (rule keeps_silent) (simp add: io_test_def)

lemma keeps_read_text: "keeps L (read_text L' p)"
  by (rule keeps_silent) (simp add: read_text_def split: option.splits node.splits)

lemma keeps_emit: "written [e] = [] \<Longrightarrow> keeps L (emit e)"
  by (simp add: keeps_def logs_def emit_def)

lemma keeps_for_each: "(\<And>x. keeps L (body x)) \<Longrightarrow> keeps L (for_each body xs)"
  by (induction xs) (auto intro: keeps_return keeps_bind)

lemma keeps_if: "(c \<Longrightarrow> keeps L a) \<Longrightarrow> (\<not> c \<Longrightarrow> keeps L b) \<Longrightarrow> keeps L (if c then a else b)"
  by simp

lemma keeps_prod: "(\<And>a b. keeps L (f a b)) \<Longrightarrow> keeps L (case x of (a, b) \<Rightarrow> f a b)"
  by (cases x) simp

lemma keeps_option:
  "keeps L a \<Longrightarrow> (\<And>x. keeps L (b x)) \<Longrightarrow> keeps L (case v of None \<Rightarrow> a | Some x \<Rightarrow> b x)"
  by (cases v) auto

lemma write_text_cases:
  "write_text L p content w = (Inr (), w\<lparr>fs := (fs w)(canon L p \<mapsto> File content)\<rparr>)
   \<or> (\<exists>e. write_text L p content w = (Inl e, w))"
  by (auto simp: write_text_def split: option.splits node.splits)

lemma keeps_write_emit:
  assumes "written [e] = [p]"
  shows "keeps L (io_bind (write_text L p content) (\<lambda>_. emit e))"
  unfolding keeps_def
proof (rule logsI)
  fix w
  from write_text_cases [of L p content w]
  show "\<exists>es. trace (snd (io_bind (write_text L p content) (\<lambda>_. emit e) w)) = trace w @ es \<and>
            ((\<forall>q. is_regular (fs w q) \<longrightarrow>
                  is_regular (fs (snd (io_bind (write_text L p content) (\<lambda>_. emit e) w)) q)) \<and>
             list_all (\<lambda>q. is_regular (fs (snd (io_bind (write_text L p content) (\<lambda>_. emit e) w))
                                      (canon L q))) (written es))"
    using assms by (auto simp: io_bind_def emit_def is_regular_def)
qed

lemma keeps_to_csv: "keeps L (to_csv L t p i f)"
  unfolding to_csv_def by (rule keeps_write_emit) (simp add: written_def)

lemma keeps_produce: "keeps L (produce L out file)"
  unfolding produce_def by (rule keeps_write_emit) (simp add: written_def)

lemmas keeps_intros =
  keeps_for_each keeps_bind keeps_return keeps_raise keeps_lift keeps_test keeps_read_text
  keeps_if keeps_prod keeps_option keeps_to_csv keeps_produce keeps_emit keeps_silent

lemma keeps_run_tracks:
  "keeps L (run_tracks L dataset submission out kinds np nl ny ns)"
  unfolding run_tracks_def eval_lexical_def eval_semantic_def eval_syntactic_def
    eval_phonetic_def load_parameters_def call_lexical_def call_semantic_def
    call_syntactic_def call_phonetic_def Let_def
  by (intro keeps_intros; simp add: written_def)

subsection \<open>The handler\<close>

lemma evaluate_fs:
  "fs (snd (evaluate L environ dataset submission out np nl ny ns w))
   = fs (snd (pipeline L environ dataset submission out np nl ny ns w))"
  by (simp add: evaluate_def emit_def split: prod.splits sum.splits exn.splits)

lemma run_event_no_error_line:
  "run_event L environ dataset submission out np nl ny ns e \<Longrightarrow> error_lines [e] = []"
  by (auto simp: run_event_def staging_event_def track_event_def error_lines_def list_ex_iff
                 prefix_def
           split: event.splits)

lemma error_lines_append: "error_lines (a @ b) = error_lines a @ error_lines b"
  by (simp add: error_lines_def)

lemma error_lines_Cons: "error_lines (e # es) = error_lines [e] @ error_lines es"
  by (simp add: error_lines_def)

lemma error_lines_none: "list_all (\<lambda>e. error_lines [e] = []) es \<Longrightarrow> error_lines es = []"
proof (induction es)
  case Nil
  show ?case by (simp add: error_lines_def)
next
  case (Cons e es)
  then have "error_lines [e] = []" "error_lines es = []" by simp_all
  then show ?case by (simp only: error_lines_Cons [of e es] append_Nil)
qed

lemma written_Cons: "written (e # es) = written [e] @ written es"
  by (simp add: written_def)

lemma written_none: "list_all (\<lambda>e. written [e] = []) es \<Longrightarrow> written es = []"
proof (induction es)
  case Nil
  show ?case by (rule written_Nil)
next
  case (Cons e es)
  then have "written [e] = []" "written es = []" by simp_all
  then show ?case by (simp only: written_Cons [of e es] append_Nil)
qed

lemma logs_pipeline_written:
  "logs (\<lambda>w r w' es. list_all (\<lambda>p. is_regular (fs w' (canon L p))) (written es))
     (pipeline L environ dataset submission out np nl ny ns)"
  unfolding pipeline_staging
proof (rule logs_bind [where QA = "\<lambda>w r w' es. written es = []"
      and QB = "\<lambda>w r w' es. list_all (\<lambda>p. is_regular (fs w' (canon L p))) (written es)"])
  show "logs (\<lambda>w r w' es. written es = []) (staging L environ dataset submission)"
  proof -
    have "adds (\<lambda>e. written [e] = []) (staging L environ dataset submission)"
      by (rule adds_staging_gen) (simp_all add: written_def)
    then show ?thesis
      by (rule adds_logs) (rule written_none)
  qed
next
  fix staged
  show "logs (\<lambda>w r w' es. list_all (\<lambda>p. is_regular (fs w' (canon L p))) (written es))
          (io_bind (make_output L out)
             (\<lambda>_. run_tracks L (canon L (snd (select_gold environ dataset))) staged out
                     (fst (select_gold environ dataset)) np nl ny ns))"
  proof (rule logs_bind [where QA = "\<lambda>w r w' es. written es = []"
      and QB = "\<lambda>w r w' es. list_all (\<lambda>p. is_regular (fs w' (canon L p))) (written es)"])
    show "logs (\<lambda>w r w' es. written es = []) (make_output L out)"
    proof -
      have "adds (\<lambda>e. written [e] = []) (make_output L out)"
        by (rule adds_make_output_gen) (simp add: written_def)
      then show ?thesis
        by (rule adds_logs) (rule written_none)
    qed
  next
    fix u :: unit
    show "logs (\<lambda>w r w' es. list_all (\<lambda>p. is_regular (fs w' (canon L p))) (written es))
            (run_tracks L (canon L (snd (select_gold environ dataset))) staged out
               (fst (select_gold environ dataset)) np nl ny ns)"
      by (rule logs_mono [OF keeps_run_tracks [unfolded keeps_def]]) simp
  qed simp_all
qed simp_all

lemma is_file_regular: "is_file L w p = is_regular (fs w (canon L p))"
  by (simp add: is_file_def is_regular_def node_at_def)

text \<open>
  C4. When the body of the command raises a ValueError, wherever it does: the command
  ends with \<open>sys.exit(-1)\<close>; the world it ends in is the world at the raise with the
  one line \<open>ERROR: <message>\<close> added to the output, so nothing is evaluated, written
  or deleted after the raise; that line is the only \<open>ERROR:\<close> line of the whole run;
  and every file written before the raise, by the driver or by the phonetic evaluator,
  is still a regular file at the end.
\<close>

theorem value_error_reported_once:
  assumes "pipeline L environ dataset submission out np nl ny ns w = (Inl (ValueError msg), w1)"
  shows "evaluate L environ dataset submission out np nl ny ns w
           = (SysExit (- 1), w1\<lparr>trace := trace w1 @ [Printed (''ERROR: '' @ msg)]\<rparr>)
         \<and> error_lines (new_events w
               (snd (evaluate L environ dataset submission out np nl ny ns w)))
             = [''ERROR: '' @ msg]
         \<and> list_all (is_file L (snd (evaluate L environ dataset submission out np nl ny ns w)))
             (written (new_events w
                (snd (evaluate L environ dataset submission out np nl ny ns w))))"
proof -
  obtain es where es: "trace w1 = trace w @ es"
      "list_all (run_event L environ dataset submission out np nl ny ns) es"
    using addsD [OF adds_pipeline, of L environ dataset submission out np nl ny ns w] assms
    by auto
  have quiet: "error_lines es = []"
    by (rule error_lines_none) (use es(2) in \<open>auto simp: list_all_iff dest: run_event_no_error_line\<close>)
  obtain es' where es': "trace w1 = trace w @ es'"
      "list_all (\<lambda>p. is_regular (fs w1 (canon L p))) (written es')"
    using logsD [OF logs_pipeline_written, of L environ dataset submission out np nl ny ns w] assms
    by auto
  have same: "es' = es" using es(1) es'(1) by simp
  have result: "evaluate L environ dataset submission out np nl ny ns w
           = (SysExit (- 1), w1\<lparr>trace := trace w1 @ [Printed (''ERROR: '' @ msg)]\<rparr>)"
    using assms by (simp add: evaluate_def emit_def)
  have new: "new_events w (snd (evaluate L environ dataset submission out np nl ny ns w))
           = es @ [Printed (''ERROR: '' @ msg)]"
    by (simp add: result new_events_def es(1))
  have lines: "error_lines (es @ [Printed (''ERROR: '' @ msg)]) = [''ERROR: '' @ msg]"
    using quiet by (simp add: error_lines_append) (simp add: error_lines_def)
  have files: "written (es @ [Printed (''ERROR: '' @ msg)]) = written es"
    by (simp add: written_def)
  have kept: "list_all (is_file L (w1\<lparr>trace := trace w1 @ [Printed (''ERROR: '' @ msg)]\<rparr>))
                (written es)"
    using es'(2) same by (simp add: is_file_regular list_all_iff)
  have final: "snd (evaluate L environ dataset submission out np nl ny ns w)
               = w1\<lparr>trace := trace w1 @ [Printed (''ERROR: '' @ msg)]\<rparr>"
    by (simp only: result snd_conv)
  show ?thesis
  proof (intro conjI)
    show "evaluate L environ dataset submission out np nl ny ns w
           = (SysExit (- 1), w1\<lparr>trace := trace w1 @ [Printed (''ERROR: '' @ msg)]\<rparr>)"
      by (rule result)
    show "error_lines (new_events w
               (snd (evaluate L environ dataset submission out np nl ny ns w)))
             = [''ERROR: '' @ msg]"
      by (simp only: new lines)
    show "list_all (is_file L (snd (evaluate L environ dataset submission out np nl ny ns w)))
             (written (new_events w
                (snd (evaluate L environ dataset submission out np nl ny ns w))))"
      unfolding new unfolding files unfolding final by (rule kept)
  qed
qed

theorem value_error_reported_once_witness:
  "fst (pipeline demo_lib Map.empty [''/'', ''data''] [''/'', ''odd''] [''/'', ''out'']
          True False True False demo_world) = Inl (ValueError ''unknown metric'')
   \<and> fst (evaluate demo_lib Map.empty [''/'', ''data''] [''/'', ''odd''] [''/'', ''out'']
            True False True False demo_world) = SysExit (- 1)
   \<and> error_lines (new_events demo_world
         (snd (evaluate demo_lib Map.empty [''/'', ''data''] [''/'', ''odd''] [''/'', ''out'']
                 True False True False demo_world))) = [''ERROR: unknown metric'']
   \<and> written (new_events demo_world
         (snd (evaluate demo_lib Map.empty [''/'', ''data''] [''/'', ''odd''] [''/'', ''out'']
                 True False True False demo_world)))
       = [[''/'', ''out'', ''score_lexical_dev_by_pair.csv''],
          [''/'', ''out'', ''score_lexical_dev_by_frequency.csv''],
          [''/'', ''out'', ''score_lexical_dev_by_length.csv'']]
   \<and> list_all (is_file demo_lib
         (snd (evaluate demo_lib Map.empty [''/'', ''data''] [''/'', ''odd''] [''/'', ''out'']
                 True False True False demo_world)))
       (written (new_events demo_world
         (snd (evaluate demo_lib Map.empty [''/'', ''data''] [''/'', ''odd''] [''/'', ''out'']
                 True False True False demo_world))))"
proof -
  have raised: "fst (pipeline demo_lib Map.empty [''/'', ''data''] [''/'', ''odd''] [''/'', ''out'']
          True False True False demo_world) = Inl (ValueError ''unknown metric'')"
    by code_simp
  then have run: "pipeline demo_lib Map.empty [''/'', ''data''] [''/'', ''odd''] [''/'', ''out'']
          True False True False demo_world
        = (Inl (ValueError ''unknown metric''),
           snd (pipeline demo_lib Map.empty [''/'', ''data''] [''/'', ''odd''] [''/'', ''out'']
                  True False True False demo_world))"
    by (metis prod.collapse)
  have files: "written (new_events demo_world
         (snd (evaluate demo_lib Map.empty [''/'', ''data''] [''/'', ''odd''] [''/'', ''out'']
                 True False True False demo_world)))
       = [[''/'', ''out'', ''score_lexical_dev_by_pair.csv''],
          [''/'', ''out'', ''score_lexical_dev_by_frequency.csv''],
          [''/'', ''out'', ''score_lexical_dev_by_length.csv'']]"
    by code_simp
  note handled = value_error_reported_once [OF run]
  have exits: "fst (evaluate demo_lib Map.empty [''/'', ''data''] [''/'', ''odd''] [''/'', ''out'']
            True False True False demo_world) = SysExit (- 1)"
    by (simp only: conjunct1 [OF handled] fst_conv)
  have line: "error_lines (new_events demo_world
         (snd (evaluate demo_lib Map.empty [''/'', ''data''] [''/'', ''odd''] [''/'', ''out'']
                 True False True False demo_world))) = [''ERROR: '' @ ''unknown metric'']"
    by (rule conjunct1 [OF conjunct2 [OF handled]])
  have text_of_line: "''ERROR: '' @ ''unknown metric'' = ''ERROR: unknown metric''"
    by simp
  note kept = conjunct2 [OF conjunct2 [OF handled]]
  show ?thesis
    using raised exits line [unfolded text_of_line] files kept by (intro conjI)
qed

end
